theory Spec2Isabelle
  imports Complex_Main
begin

section \<open>Python values and dictionaries\<close>

text \<open>
  The planner state is a Python dictionary from field names to values
  (\<^verbatim>\<open>PlannerState\<close>, a \<^verbatim>\<open>TypedDict\<close>). A dictionary keeps its keys in insertion
  order and holds each key once, so it is modelled as an association list; all
  reads go through \<open>map_of\<close>.

  \<^verbatim>\<open>src/schemas.py\<close> is not among the sources. The three records below carry the
  attributes that \<^verbatim>\<open>src/graph.py\<close> reads; the defaults of \<^verbatim>\<open>PlannerConfig()\<close> are the
  ones asserted in \<^verbatim>\<open>tests/test_schemas.py\<close> (test_config_creation_default).
  Python floats are modelled as rationals: only comparisons against constants are
  made on them.
\<close>

record PlannerConfig =
  max_iterations :: int
  use_llm :: bool
  complexity_threshold :: rat
  auto_approve_simple_plans :: bool
  include_detailed_timeline :: bool

record TaskAnalysis =
  complexity_score :: rat
  feasibility_score :: rat

record ExecutionPlan =
  plan_id :: string
  estimated_total_hours :: rat

record PlanFeedback =
  rating :: int
  comments :: string
  approval_status :: bool

definition PlannerConfig_default :: PlannerConfig where
  "PlannerConfig_default =
     \<lparr>max_iterations = 3, use_llm = False, complexity_threshold = 7,
      auto_approve_simple_plans = True, include_detailed_timeline = True\<rparr>"

datatype pyval =
    PNone
  | PBool bool
  | PInt int
  | PStr string
  | PList "pyval list"
  | PDict "(string \<times> pyval) list"
  | PConfig PlannerConfig
  | PAnalysis TaskAnalysis
  | PPlan ExecutionPlan
  | PFeedback PlanFeedback
  | PObject string  \<comment> \<open>any other object (a Task, a datetime), opaque\<close>

type_synonym pydict = "(string \<times> pyval) list"

datatype pyerr = TypeError | AttributeError

text \<open>\<^verbatim>\<open>d[k] = v\<close>: an existing key keeps its position, a new key goes last.\<close>

fun dict_set :: "'k \<Rightarrow> 'v \<Rightarrow> ('k \<times> 'v) list \<Rightarrow> ('k \<times> 'v) list" where
  "dict_set k v [] = [(k, v)]"
| "dict_set k v ((k', v') # d) =
     (if k' = k then (k, v) # d else (k', v') # dict_set k v d)"

text \<open>
  \<^verbatim>\<open>{**state, **partial}\<close>, the state-update idiom of the tests
  (\<^verbatim>\<open>tests/test_nodes.py\<close>, test_full_node_pipeline and test_state_consistency):
  the items of \<open>partial\<close> are stored into a copy of \<open>state\<close> one after the other.
\<close>

definition merge :: "('k \<times> 'v) list \<Rightarrow> ('k \<times> 'v) list \<Rightarrow> ('k \<times> 'v) list" where
  "merge state partial = foldl (\<lambda>d (k, v). dict_set k v d) state partial"

definition keys :: "('k \<times> 'v) list \<Rightarrow> 'k list" where
  "keys d = map fst d"

text \<open>\<^verbatim>\<open>d.get(k)\<close> and \<^verbatim>\<open>d.get(k, default)\<close>.\<close>

definition get_or :: "pydict \<Rightarrow> string \<Rightarrow> pyval \<Rightarrow> pyval" where
  "get_or d k dflt = (case map_of d k of None \<Rightarrow> dflt | Some v \<Rightarrow> v)"

definition get :: "pydict \<Rightarrow> string \<Rightarrow> pyval" where
  "get d k = get_or d k PNone"

text \<open>Truth value of an object, as \<^verbatim>\<open>if x\<close>, \<^verbatim>\<open>x or y\<close>, \<^verbatim>\<open>x and y\<close> test it.\<close>

fun truthy :: "pyval \<Rightarrow> bool" where
  "truthy PNone = False"
| "truthy (PBool b) = b"
| "truthy (PInt n) = (n \<noteq> 0)"
| "truthy (PStr s) = (s \<noteq> [])"
| "truthy (PList xs) = (xs \<noteq> [])"
| "truthy (PDict d) = (d \<noteq> [])"
| "truthy (PConfig c) = True"
| "truthy (PAnalysis a) = True"
| "truthy (PPlan p) = True"
| "truthy (PFeedback f) = True"
| "truthy (PObject r) = True"

text \<open>
  Strings are UTF-8 byte lists; \<^verbatim>\<open>len\<close> of a Python string counts code points,
  that is the bytes that are not continuation bytes (10xxxxxx).
\<close>

definition utf8 :: "nat list \<Rightarrow> string" where
  "utf8 bs = map char_of bs"

definition code_points :: "string \<Rightarrow> nat" where
  "code_points s =
     length (filter (\<lambda>c. \<not> (128 \<le> (of_char c :: nat) \<and> (of_char c :: nat) < 192)) s)"

fun py_len :: "pyval \<Rightarrow> pyerr + nat" where
  "py_len (PStr s) = Inr (code_points s)"
| "py_len (PList xs) = Inr (length xs)"
| "py_len (PDict d) = Inr (length d)"
| "py_len v = Inl TypeError"

text \<open>An integer operand of a comparison; \<^verbatim>\<open>bool\<close> is a subclass of \<^verbatim>\<open>int\<close>.\<close>

fun py_int :: "pyval \<Rightarrow> pyerr + int" where
  "py_int (PInt n) = Inr n"
| "py_int (PBool b) = Inr (if b then 1 else 0)"
| "py_int v = Inl TypeError"

text \<open>\<^verbatim>\<open>x + ys\<close> for a list \<open>ys\<close>: defined for a list \<open>x\<close> only.\<close>

fun list_concat :: "pyval \<Rightarrow> pyval list \<Rightarrow> pyerr + pyval" where
  "list_concat (PList xs) ys = Inr (PList (xs @ ys))"
| "list_concat v ys = Inl TypeError"

text \<open>Sequencing of computations that may raise.\<close>

definition raising :: "'e + 'a \<Rightarrow> ('a \<Rightarrow> 'e + 'b) \<Rightarrow> 'e + 'b" where
  "raising r f = (case r of Inl e \<Rightarrow> Inl e | Inr x \<Rightarrow> f x)"

text \<open>\<^verbatim>\<open>str(n)\<close> for an integer.\<close>

fun str_nat :: "nat \<Rightarrow> string" where
  "str_nat n =
     (if n < 10 then [char_of (48 + n)]
      else str_nat (n div 10) @ [char_of (48 + n mod 10)])"

declare str_nat.simps [simp del]

definition str_int :: "int \<Rightarrow> string" where
  "str_int i = (if i < 0 then CHR ''-'' # str_nat (nat (- i)) else str_nat (nat i))"

section \<open>What \<^verbatim>\<open>src/graph.py\<close> uses and the sources do not hold\<close>

text \<open>
  \<^verbatim>\<open>update_state_metadata\<close> and \<^verbatim>\<open>add_processing_note\<close> are imported from
  \<^verbatim>\<open>src/state.py\<close>, which is not among the sources: they are parameters of the
  model, each returning the dictionary that the caller unpacks with \<^verbatim>\<open>**\<close> (or
  raising). The same record carries three behaviours of the Python runtime that the
  model leaves open: the text of a compound object inside an f-string, iteration
  over an object that is not a list, and the \<^verbatim>\<open>:.1f\<close> format of a float.
\<close>

record externals =
  update_state_metadata :: "pydict \<Rightarrow> string \<Rightarrow> pyerr + pydict"
  add_processing_note :: "pydict \<Rightarrow> string \<Rightarrow> pyerr + pydict"
  py_repr :: "pyval \<Rightarrow> string"
  py_iter :: "pyval \<Rightarrow> pyerr + pyval list"
  format_1f :: "rat \<Rightarrow> string"

text \<open>\<^verbatim>\<open>f"{v}"\<close>.\<close>

fun py_format :: "externals \<Rightarrow> pyval \<Rightarrow> string" where
  "py_format ext (PStr s) = s"
| "py_format ext (PInt n) = str_int n"
| "py_format ext PNone = ''None''"
| "py_format ext (PBool b) = (if b then ''True'' else ''False'')"
| "py_format ext v = py_repr ext v"

text \<open>\<^verbatim>\<open>for x in v\<close>.\<close>

fun iterate :: "externals \<Rightarrow> pyval \<Rightarrow> pyerr + pyval list" where
  "iterate ext (PList xs) = Inr xs"
| "iterate ext PNone = Inl TypeError"
| "iterate ext (PBool b) = Inl TypeError"
| "iterate ext (PInt n) = Inl TypeError"
| "iterate ext v = py_iter ext v"

text \<open>\<^verbatim>\<open>x or y\<close>.\<close>

definition py_or :: "pyval \<Rightarrow> pyval \<Rightarrow> pyval" where
  "py_or x y = (if truthy x then x else y)"

text \<open>Attribute reads; an object of another class has no such attribute.\<close>

fun attr_max_iterations :: "pyval \<Rightarrow> pyerr + int" where
  "attr_max_iterations (PConfig c) = Inr (max_iterations c)"
| "attr_max_iterations v = Inl AttributeError"

fun attr_auto_approve_simple_plans :: "pyval \<Rightarrow> pyerr + bool" where
  "attr_auto_approve_simple_plans (PConfig c) = Inr (auto_approve_simple_plans c)"
| "attr_auto_approve_simple_plans v = Inl AttributeError"

fun attr_complexity_score :: "pyval \<Rightarrow> pyerr + rat" where
  "attr_complexity_score (PAnalysis a) = Inr (complexity_score a)"
| "attr_complexity_score v = Inl AttributeError"

fun attr_estimated_total_hours :: "pyval \<Rightarrow> pyerr + rat" where
  "attr_estimated_total_hours (PPlan p) = Inr (estimated_total_hours p)"
| "attr_estimated_total_hours v = Inl AttributeError"

fun attr_feedback :: "pyval \<Rightarrow> pyerr + PlanFeedback" where
  "attr_feedback (PFeedback f) = Inr f"
| "attr_feedback v = Inl AttributeError"

text \<open>\<^verbatim>\<open>needle in haystack\<close> on strings.\<close>

fun contains :: "string \<Rightarrow> string \<Rightarrow> bool" where
  "contains needle [] = (needle = [])"
| "contains needle (c # cs) =
     (take (length needle) (c # cs) = needle \<or> contains needle cs)"

subsection \<open>String literals of \<^verbatim>\<open>src/graph.py\<close>\<close>

text \<open>
  The literals are Chinese; each is given by its UTF-8 bytes, with its meaning
  beside it. A formatted note is the text before the placeholder, the formatted
  value, and the text after it.
\<close>

definition lit_finalized :: string where \<comment> \<open>plan finalisation complete\<close>
  "lit_finalized =
     utf8 [0xE8, 0xA8, 0x88, 0xE5, 0x8A, 0x83, 0xE6, 0x9C, 0x80, 0xE7, 0xB5, 0x82, 0xE5,
     0x8C, 0x96, 0xE5, 0xAE, 0x8C, 0xE6, 0x88, 0x90]"

definition lit_total_pre :: string where \<comment> \<open>performed in total\<close>
  "lit_total_pre =
     utf8 [0xE7, 0xB8, 0xBD, 0xE5, 0x85, 0xB1, 0xE9, 0x80, 0xB2, 0xE8, 0xA1, 0x8C, 0xE4,
     0xBA, 0x86, 0x20]"

definition lit_total_post :: string where \<comment> \<open>iterations\<close>
  "lit_total_post =
     utf8 [0x20, 0xE6, 0xAC, 0xA1, 0xE8, 0xBF, 0xAD, 0xE4, 0xBB, 0xA3]"

definition lit_final_pre :: string where \<comment> \<open>the final plan contains\<close>
  "lit_final_pre =
     utf8 [0xE6, 0x9C, 0x80, 0xE7, 0xB5, 0x82, 0xE8, 0xA8, 0x88, 0xE5, 0x8A, 0x83, 0xE5,
     0x8C, 0x85, 0xE5, 0x90, 0xAB, 0x20]"

definition lit_final_post :: string where \<comment> \<open>tasks\<close>
  "lit_final_post =
     utf8 [0x20, 0xE5, 0x80, 0x8B, 0xE4, 0xBB, 0xBB, 0xE5, 0x8B, 0x99]"

definition lit_hours_pre :: string where \<comment> \<open>estimated total time:\<close>
  "lit_hours_pre =
     utf8 [0xE9, 0xA0, 0x90, 0xE4, 0xBC, 0xB0, 0xE7, 0xB8, 0xBD, 0xE6, 0x99, 0x82, 0xE9,
     0x96, 0x93, 0xEF, 0xBC, 0x9A]"

definition lit_hours_post :: string where \<comment> \<open>hours\<close>
  "lit_hours_post =
     utf8 [0x20, 0xE5, 0xB0, 0x8F, 0xE6, 0x99, 0x82]"

definition lit_handled_pre :: string where \<comment> \<open>handled\<close>
  "lit_handled_pre =
     utf8 [0xE8, 0x99, 0x95, 0xE7, 0x90, 0x86, 0xE4, 0xBA, 0x86, 0x20]"

definition lit_handled_post :: string where \<comment> \<open>errors\<close>
  "lit_handled_post =
     utf8 [0x20, 0xE5, 0x80, 0x8B, 0xE9, 0x8C, 0xAF, 0xE8, 0xAA, 0xA4]"

definition lit_handled_done :: string where \<comment> \<open>error handling complete, flow terminated\<close>
  "lit_handled_done =
     utf8 [0xE9, 0x8C, 0xAF, 0xE8, 0xAA, 0xA4, 0xE8, 0x99, 0x95, 0xE7, 0x90, 0x86, 0xE5,
     0xAE, 0x8C, 0xE6, 0x88, 0x90, 0xEF, 0xBC, 0x8C, 0xE6, 0xB5, 0x81, 0xE7, 0xA8, 0x8B,
     0xE7, 0xB5, 0x82, 0xE6, 0xAD, 0xA2]"

definition lit_monitor_pre :: string where \<comment> \<open>state monitoring: iteration number\<close>
  "lit_monitor_pre =
     utf8 [0xE7, 0x8B, 0x80, 0xE6, 0x85, 0x8B, 0xE7, 0x9B, 0xA3, 0xE6, 0x8E, 0xA7, 0xEF,
     0xBC, 0x9A, 0xE7, 0xAC, 0xAC, 0x20]"

definition lit_max_pre :: string where \<comment> \<open>maximum allowed iterations:\<close>
  "lit_max_pre =
     utf8 [0xE6, 0x9C, 0x80, 0xE5, 0xA4, 0xA7, 0xE5, 0x85, 0x81, 0xE8, 0xA8, 0xB1, 0xE8,
     0xBF, 0xAD, 0xE4, 0xBB, 0xA3, 0xEF, 0xBC, 0x9A]"

definition lit_max_reached :: string where \<comment> \<open>maximum number of iterations reached, preparing forced end\<close>
  "lit_max_reached =
     utf8 [0xE9, 0x81, 0x94, 0xE5, 0x88, 0xB0, 0xE6, 0x9C, 0x80, 0xE5, 0xA4, 0xA7, 0xE8,
     0xBF, 0xAD, 0xE4, 0xBB, 0xA3, 0xE6, 0xAC, 0xA1, 0xE6, 0x95, 0xB8, 0xEF, 0xBC, 0x8C,
     0xE6, 0xBA, 0x96, 0xE5, 0x82, 0x99, 0xE5, 0xBC, 0xB7, 0xE5, 0x88, 0xB6, 0xE7, 0xB5,
     0x90, 0xE6, 0x9D, 0x9F]"

definition lit_parallel_pre :: string where \<comment> \<open>preparing parallel analysis of\<close>
  "lit_parallel_pre =
     utf8 [0xE6, 0xBA, 0x96, 0xE5, 0x82, 0x99, 0xE5, 0xB0, 0x8D, 0x20]"

definition lit_parallel_post :: string where \<comment> \<open>tasks\<close>
  "lit_parallel_post =
     utf8 [0x20, 0xE5, 0x80, 0x8B, 0xE4, 0xBB, 0xBB, 0xE5, 0x8B, 0x99, 0xE9, 0x80, 0xB2,
     0xE8, 0xA1, 0x8C, 0xE4, 0xB8, 0xA6, 0xE8, 0xA1, 0x8C, 0xE5, 0x88, 0x86, 0xE6, 0x9E,
     0x90]"

definition lit_risk_time :: string where \<comment> \<open>time risk\<close>
  "lit_risk_time =
     utf8 [0xE6, 0x99, 0x82, 0xE9, 0x96, 0x93, 0xE9, 0xA2, 0xA8, 0xE9, 0x9A, 0xAA]"

definition lit_risk_skill :: string where \<comment> \<open>skill risk\<close>
  "lit_risk_skill =
     utf8 [0xE6, 0x8A, 0x80, 0xE8, 0x83, 0xBD, 0xE9, 0xA2, 0xA8, 0xE9, 0x9A, 0xAA]"

definition lit_risk_resource :: string where \<comment> \<open>resource risk\<close>
  "lit_risk_resource =
     utf8 [0xE8, 0xB3, 0x87, 0xE6, 0xBA, 0x90, 0xE9, 0xA2, 0xA8, 0xE9, 0x9A, 0xAA]"

definition lit_risk_pre :: string where \<comment> \<open>risk assessment complete, identified\<close>
  "lit_risk_pre =
     utf8 [0xE5, 0xAE, 0x8C, 0xE6, 0x88, 0x90, 0xE9, 0xA2, 0xA8, 0xE9, 0x9A, 0xAA, 0xE8,
     0xA9, 0x95, 0xE4, 0xBC, 0xB0, 0xEF, 0xBC, 0x8C, 0xE8, 0xAD, 0x98, 0xE5, 0x88, 0xA5,
     0x20]"

definition lit_risk_post :: string where \<comment> \<open>kinds of risk\<close>
  "lit_risk_post =
     utf8 [0x20, 0xE9, 0xA1, 0x9E, 0xE9, 0xA2, 0xA8, 0xE9, 0x9A, 0xAA]"

definition lit_res_time :: string where \<comment> \<open>time resources\<close>
  "lit_res_time =
     utf8 [0xE6, 0x99, 0x82, 0xE9, 0x96, 0x93, 0xE8, 0xB3, 0x87, 0xE6, 0xBA, 0x90]"

definition lit_res_learning :: string where \<comment> \<open>learning resources\<close>
  "lit_res_learning =
     utf8 [0xE5, 0xAD, 0xB8, 0xE7, 0xBF, 0x92, 0xE8, 0xB3, 0x87, 0xE6, 0xBA, 0x90]"

definition lit_res_tool :: string where \<comment> \<open>tool resources\<close>
  "lit_res_tool =
     utf8 [0xE5, 0xB7, 0xA5, 0xE5, 0x85, 0xB7, 0xE8, 0xB3, 0x87, 0xE6, 0xBA, 0x90]"

definition lit_res_pre :: string where \<comment> \<open>resource check complete, assessed\<close>
  "lit_res_pre =
     utf8 [0xE5, 0xAE, 0x8C, 0xE6, 0x88, 0x90, 0xE8, 0xB3, 0x87, 0xE6, 0xBA, 0x90, 0xE6,
     0xAA, 0xA2, 0xE6, 0x9F, 0xA5, 0xEF, 0xBC, 0x8C, 0xE8, 0xA9, 0x95, 0xE4, 0xBC, 0xB0,
     0x20]"

definition lit_res_post :: string where \<comment> \<open>kinds of resource\<close>
  "lit_res_post =
     utf8 [0x20, 0xE9, 0xA1, 0x9E, 0xE8, 0xB3, 0x87, 0xE6, 0xBA, 0x90]"

definition lit_redesign :: string where \<comment> \<open>redesign\<close>
  "lit_redesign =
     utf8 [0xE9, 0x87, 0x8D, 0xE6, 0x96, 0xB0, 0xE8, 0xA8, 0xAD, 0xE8, 0xA8, 0x88]"

definition lit_final_phase :: string where \<comment> \<open>final phase:\<close>
  "lit_final_phase =
     utf8 [0xE6, 0x9C, 0x80, 0xE7, 0xB5, 0x82, 0xE9, 0x9A, 0x8E, 0xE6, 0xAE, 0xB5, 0x3A,
     0x20]"


section \<open>Node functions of \<^verbatim>\<open>src/graph.py\<close>\<close>

text \<open>
  A node takes the state and returns a partial update, or raises. The leading
  underscore of the Python names is dropped.
\<close>

text \<open>\<^verbatim>\<open>_finalize_plan\<close> (lines 284-316).\<close>

definition finalize_plan :: "externals \<Rightarrow> pydict \<Rightarrow> pyerr + pydict" where
  "finalize_plan ext state =
     (let execution_plan = get state ''execution_plan'';
          iteration_count = get_or state ''iteration_count'' (PInt 0)
      in raising (py_len (get_or state ''subtasks'' (PList []))) (\<lambda>n.
         let final_notes =
               [lit_finalized,
                lit_total_pre @ py_format ext iteration_count @ lit_total_post,
                lit_final_pre @ str_nat n @ lit_final_post]
         in raising
              (if truthy execution_plan
               then raising (attr_estimated_total_hours execution_plan) (\<lambda>h.
                      Inr (final_notes @ [lit_hours_pre @ format_1f ext h @ lit_hours_post]))
               else Inr final_notes) (\<lambda>final_notes.
            raising (update_state_metadata ext state ''completed'') (\<lambda>meta.
            raising (list_concat (get_or state ''processing_notes'' (PList []))
                       (map PStr final_notes)) (\<lambda>notes.
              Inr (dict_set ''is_plan_approved'' (PBool True)
                    (dict_set ''processing_notes'' notes meta)))))))"

text \<open>\<^verbatim>\<open>_handle_errors\<close> (lines 319-341).\<close>

definition handle_errors :: "externals \<Rightarrow> pydict \<Rightarrow> pyerr + pydict" where
  "handle_errors ext state =
     (let errors = get_or state ''errors'' (PList [])
      in raising (py_len errors) (\<lambda>n.
         let error_summary = lit_handled_pre @ str_nat n @ lit_handled_post
         in raising (update_state_metadata ext state ''error_handled'') (\<lambda>meta.
            raising (list_concat (get_or state ''processing_notes'' (PList []))
                       [PStr error_summary, PStr lit_handled_done]) (\<lambda>notes.
              Inr (dict_set ''processing_notes'' notes meta)))))"

text \<open>\<^verbatim>\<open>_monitor_state\<close> (lines 344-371).\<close>

definition monitor_state :: "externals \<Rightarrow> pydict \<Rightarrow> pyerr + pydict" where
  "monitor_state ext state =
     (let iteration_count = get_or state ''iteration_count'' (PInt 0);
          config = py_or (get state ''config'') (PConfig PlannerConfig_default)
      in raising (attr_max_iterations config) (\<lambda>m.
         let monitoring_notes =
               [lit_monitor_pre @ py_format ext iteration_count @ lit_total_post,
                lit_max_pre @ str_int m]
         in raising (py_int iteration_count) (\<lambda>i.
            let monitoring_notes =
                  (if i \<ge> m then monitoring_notes @ [lit_max_reached] else monitoring_notes)
            in raising (update_state_metadata ext state ''monitored'') (\<lambda>meta.
               raising (list_concat (get_or state ''processing_notes'' (PList []))
                          (map PStr monitoring_notes)) (\<lambda>notes.
                 Inr (dict_set ''processing_notes'' notes meta))))))"

text \<open>\<^verbatim>\<open>_parallel_analysis\<close> (lines 376-391).\<close>

definition parallel_analysis :: "externals \<Rightarrow> pydict \<Rightarrow> pyerr + pydict" where
  "parallel_analysis ext state =
     (let subtasks = get_or state ''subtasks'' (PList [])
      in raising (py_len subtasks) (\<lambda>n.
         let parallel_note = lit_parallel_pre @ str_nat n @ lit_parallel_post
         in raising (add_processing_note ext state parallel_note) (\<lambda>noted.
              Inr (dict_set ''current_phase'' (PStr ''parallel_analysis'') noted))))"

text \<open>\<^verbatim>\<open>_assess_risks\<close> (lines 394-403).\<close>

definition assess_risks :: "externals \<Rightarrow> pydict \<Rightarrow> pyerr + pydict" where
  "assess_risks ext state =
     (let risks = [PStr lit_risk_time, PStr lit_risk_skill, PStr lit_risk_resource]
      in raising (add_processing_note ext state
                    (lit_risk_pre @ str_nat (length risks) @ lit_risk_post)) (\<lambda>noted.
           Inr (dict_set ''identified_risks'' (PList risks) noted)))"

text \<open>\<^verbatim>\<open>_check_resources\<close> (lines 406-415).\<close>

definition check_resources :: "externals \<Rightarrow> pydict \<Rightarrow> pyerr + pydict" where
  "check_resources ext state =
     (let resources = [PStr lit_res_time, PStr lit_res_learning, PStr lit_res_tool]
      in raising (add_processing_note ext state
                    (lit_res_pre @ str_nat (length resources) @ lit_res_post)) (\<lambda>noted.
           Inr (dict_set ''available_resources'' (PList resources) noted)))"

section \<open>Routers of \<^verbatim>\<open>src/graph.py\<close>\<close>

text \<open>\<^verbatim>\<open>_should_do_parallel_analysis\<close> (lines 420-428).\<close>

definition should_do_parallel_analysis :: "pydict \<Rightarrow> pyerr + string" where
  "should_do_parallel_analysis state =
     (let subtasks = get_or state ''subtasks'' (PList [])
      in raising (py_len subtasks) (\<lambda>n.
           if n > 5 then Inr ''parallel'' else Inr ''sequential''))"

text \<open>\<^verbatim>\<open>_distribute_parallel_tasks\<close> (lines 431-436).\<close>

datatype Send = Send string pydict

definition distribute_parallel_tasks :: "pydict \<Rightarrow> Send list" where
  "distribute_parallel_tasks state =
     [Send ''risk_assessment'' [(''task_type'', PStr ''risk'')],
      Send ''resource_check'' [(''task_type'', PStr ''resource'')]]"

text \<open>\<^verbatim>\<open>_advanced_feedback_logic\<close> (lines 439-455).\<close>

definition advanced_feedback_logic :: "pydict \<Rightarrow> pyerr + string" where
  "advanced_feedback_logic state =
     (let config = py_or (get state ''config'') (PConfig PlannerConfig_default);
          task_analysis = get state ''task_analysis''
      in raising (attr_auto_approve_simple_plans config) (\<lambda>auto.
         raising (if auto \<and> truthy task_analysis
                  then raising (attr_complexity_score task_analysis) (\<lambda>c. Inr (c < 5))
                  else Inr False) (\<lambda>simple.
           if simple then Inr ''auto_approve''
           else raising (if truthy task_analysis
                         then raising (attr_complexity_score task_analysis) (\<lambda>c. Inr (c > 8))
                         else Inr False) (\<lambda>complex.
                  if complex then Inr ''need_revision'' else Inr ''get_feedback''))))"

text \<open>\<^verbatim>\<open>_advanced_refinement_logic\<close> (lines 458-475).\<close>

definition advanced_refinement_logic :: "pydict \<Rightarrow> pyerr + string" where
  "advanced_refinement_logic state =
     (let feedback = get state ''feedback''
      in if \<not> truthy feedback then Inr ''finalize''
         else raising (attr_feedback feedback) (\<lambda>f.
                if contains lit_redesign (comments f) \<or> rating f < 2 then Inr ''restart''
                else if approval_status f then Inr ''finalize''
                else Inr ''refine''))"

text \<open>\<^verbatim>\<open>_check_iteration_limit\<close> (lines 478-489).\<close>

definition check_iteration_limit :: "pydict \<Rightarrow> pyerr + string" where
  "check_iteration_limit state =
     (let iteration_count = get_or state ''iteration_count'' (PInt 0);
          config = py_or (get state ''config'') (PConfig PlannerConfig_default);
          errors = get_or state ''errors'' (PList [])
      in if truthy errors then Inr ''error''
         else raising (attr_max_iterations config) (\<lambda>m.
              raising (py_int iteration_count) (\<lambda>i.
                if i \<ge> m then Inr ''force_finalize'' else Inr ''continue'')))"

text \<open>\<^verbatim>\<open>_error_recovery_logic\<close> (lines 492-507).\<close>

definition error_recovery_logic :: "pydict \<Rightarrow> pyerr + string" where
  "error_recovery_logic state =
     (let errors = get_or state ''errors'' (PList []);
          iteration_count = get_or state ''iteration_count'' (PInt 0)
      in raising (py_len errors) (\<lambda>n.
         raising (if n < 3 then raising (py_int iteration_count) (\<lambda>i. Inr (i < 2))
                  else Inr False) (\<lambda>retry.
           if retry then Inr ''retry''
           else let execution_plan = get state ''execution_plan''
                in if truthy execution_plan then Inr ''partial_recovery''
                   else Inr ''terminate'')))"

section \<open>The execution trace\<close>

text \<open>\<^verbatim>\<open>get_execution_trace\<close> (lines 580-598).\<close>

definition get_execution_trace :: "externals \<Rightarrow> pydict \<Rightarrow> pyerr + string list" where
  "get_execution_trace ext result =
     (let notes = get_or result ''processing_notes'' (PList []);
          current_phase = get_or result ''current_phase'' (PStr ''unknown'');
          phases = [lit_final_phase @ py_format ext current_phase]
      in raising (iterate ext notes) (\<lambda>ns.
           Inr (phases @ map (\<lambda>note. ''- '' @ py_format ext note) ns)))"

section \<open>Building a graph\<close>

text \<open>
  \<^verbatim>\<open>src/graph.py\<close> builds its graphs by calls on a \<^verbatim>\<open>StateGraph\<close> builder and
  compiles them; the builder, the compiler and the executor are not among the
  sources. The definitions of this section and the next are modelled from the
  specification, each under a comment that says so.
\<close>

type_synonym node_fn = "pydict \<Rightarrow> pyerr + pydict"
type_synonym router = "pydict \<Rightarrow> pyerr + string"

datatype edge_def =
    Edge string  \<comment> \<open>unconditional: the target\<close>
  | Conditional router "(string \<times> string) list"  \<comment> \<open>router and label map\<close>
  | Fanout "pydict \<Rightarrow> Send list" "string list"  \<comment> \<open>router and declared targets\<close>

record builder =
  nodes :: "(string \<times> node_fn) list"
  edge_table :: "(string \<times> edge_def) list"

datatype problem =
    MissingEntry
  | UnknownNodeError string
  | AmbiguousRoutingError string

datatype build_error =
    DuplicateNodeError string
  | GraphValidationError "problem list"

definition START :: string where
  "START = ''__start__''"

definition END :: string where
  "END = ''__end__''"

definition StateGraph :: "build_error + builder" where
  "StateGraph = Inr \<lparr>nodes = [], edge_table = []\<rparr>"

text \<open>
  Modelled from the spec: the node registry of section 4.2, absent from the
  sources. \<open>register(name, fn)\<close> fails with \<open>DuplicateNodeError\<close> if the name is
  already registered. A call on a builder whose construction has already raised
  does nothing: the exception has left the constructing function.
\<close>

definition add_node ::
  "string \<Rightarrow> node_fn \<Rightarrow> build_error + builder \<Rightarrow> build_error + builder" where
  "add_node name fn rb =
     raising rb (\<lambda>b.
       if name \<in> set (keys (nodes b)) then Inl (DuplicateNodeError name)
       else Inr (b\<lparr>nodes := nodes b @ [(name, fn)]\<rparr>))"

text \<open>
  Modelled from the spec: the edge table of section 4.3, absent from the sources.
  The three operations record an edge definition for the source node; nothing is
  checked before compilation.
\<close>

definition add_edge ::
  "string \<Rightarrow> string \<Rightarrow> build_error + builder \<Rightarrow> build_error + builder" where
  "add_edge source target rb =
     raising rb (\<lambda>b. Inr (b\<lparr>edge_table := edge_table b @ [(source, Edge target)]\<rparr>))"

definition add_conditional_edges ::
  "string \<Rightarrow> router \<Rightarrow> (string \<times> string) list \<Rightarrow> build_error + builder
     \<Rightarrow> build_error + builder" where
  "add_conditional_edges source route label_map rb =
     raising rb (\<lambda>b.
       Inr (b\<lparr>edge_table := edge_table b @ [(source, Conditional route label_map)]\<rparr>))"

definition add_fanout_edges ::
  "string \<Rightarrow> (pydict \<Rightarrow> Send list) \<Rightarrow> string list \<Rightarrow> build_error + builder
     \<Rightarrow> build_error + builder" where
  "add_fanout_edges source route targets rb =
     raising rb (\<lambda>b.
       Inr (b\<lparr>edge_table := edge_table b @ [(source, Fanout route targets)]\<rparr>))"

record CompiledGraph =
  cg_nodes :: "(string \<times> node_fn) list"
  cg_edges :: "(string \<times> edge_def) list"
  cg_entry :: string

fun targets_of :: "edge_def \<Rightarrow> string list" where
  "targets_of (Edge t) = [t]"
| "targets_of (Conditional route label_map) = map snd label_map"
| "targets_of (Fanout route targets) = targets"

text \<open>The names an edge definition refers to that are neither registered nor a marker.\<close>

definition unknown_names :: "builder \<Rightarrow> string \<times> edge_def \<Rightarrow> string list" where
  "unknown_names b e =
     filter (\<lambda>n. n \<noteq> START \<and> n \<noteq> END \<and> n \<notin> set (keys (nodes b)))
       (fst e # targets_of (snd e))"

text \<open>The sources that have more than one outgoing edge definition, each once.\<close>

definition ambiguous_sources :: "builder \<Rightarrow> string list" where
  "ambiguous_sources b =
     remdups (filter (\<lambda>s. length (filter (\<lambda>e. fst e = s) (edge_table b)) > 1)
                (keys (edge_table b)))"

definition problems :: "builder \<Rightarrow> problem list" where
  "problems b =
     (if map_of (edge_table b) START = None then [MissingEntry] else [])
     @ map UnknownNodeError (concat (map (unknown_names b) (edge_table b)))
     @ map AmbiguousRoutingError (ambiguous_sources b)"

text \<open>
  Modelled from the spec: the graph compiler of section 4.4, absent from the
  sources. It checks that the entry node is registered and that every name an
  edge refers to is registered or a marker, and that no source has two outgoing
  definitions (section 4.3); it fails with \<open>GraphValidationError\<close> listing all the
  problems found. The entry is the target of the edge from \<open>START\<close>.
\<close>

definition compile :: "build_error + builder \<Rightarrow> build_error + CompiledGraph" where
  "compile rb =
     raising rb (\<lambda>b.
       if problems b \<noteq> [] then Inl (GraphValidationError (problems b))
       else case map_of (edge_table b) START of
              Some (Edge entry) \<Rightarrow>
                Inr \<lparr>cg_nodes = nodes b, cg_edges = edge_table b, cg_entry = entry\<rparr>
            | _ \<Rightarrow> Inl (GraphValidationError [MissingEntry]))"


section \<open>Running a graph\<close>

datatype run_error =
    IterationLimitExceeded
  | RoutingError string
  | UnknownNode string
  | RouterFault pyerr

datatype outcome =
    Terminated_success pydict
  | Terminated_error run_error pydict

datatype step_result =
    Goto string pydict "string list"
  | Abort run_error pydict "string list"

definition fault_text :: "pyerr \<Rightarrow> string" where
  "fault_text e = (case e of TypeError \<Rightarrow> ''TypeError'' | AttributeError \<Rightarrow> ''AttributeError'')"

text \<open>
  Modelled from the spec: step 2b of section 4.5. A fault of the node function is
  caught and becomes the partial update \<open>{"errors": [...]}\<close>.
\<close>

definition invoke :: "node_fn \<Rightarrow> pydict \<Rightarrow> pydict" where
  "invoke fn state =
     (case fn state of
        Inl e \<Rightarrow> [(''errors'', PList [PStr (fault_text e)])]
      | Inr update \<Rightarrow> update)"

definition record_error :: "string \<Rightarrow> pydict \<Rightarrow> pydict" where
  "record_error msg state = merge state [(''errors'', PList [PStr msg])]"

text \<open>
  Modelled from the spec: the branches of a fan-out (step 2d of section 4.5 and
  section 4.6). Each target runs against the state with the payload laid over it;
  the outputs are merged back in the order of the router's list, a later branch
  winning on a key both write. The second component lists the branches run.
\<close>

fun dispatch ::
  "(string \<times> node_fn) list \<Rightarrow> pydict \<Rightarrow> Send list \<Rightarrow> run_error + pydict list" where
  "dispatch ns state [] = Inr []"
| "dispatch ns state (Send target payload # sends) =
     (case map_of ns target of
        None \<Rightarrow> Inl (UnknownNode target)
      | Some fn \<Rightarrow>
          raising (dispatch ns state sends) (\<lambda>updates.
            Inr (invoke fn (merge state payload) # updates)))"

definition send_target :: "Send \<Rightarrow> string" where
  "send_target s = (case s of Send target payload \<Rightarrow> target)"

text \<open>
  Modelled from the spec: the join of a fan-out is the node that all its branches
  converge to, that is the common target of the branches' unconditional edges.
\<close>

definition successor :: "(string \<times> edge_def) list \<Rightarrow> string \<Rightarrow> string option" where
  "successor es n = (case map_of es n of Some (Edge j) \<Rightarrow> Some j | _ \<Rightarrow> None)"

definition join_of :: "(string \<times> edge_def) list \<Rightarrow> string list \<Rightarrow> string option" where
  "join_of es targets =
     (case remdups (map (successor es) targets) of
        [Some j] \<Rightarrow> Some j
      | _ \<Rightarrow> None)"

text \<open>
  Modelled from the spec: steps 2b to 2d of section 4.5, one pass of the
  executor's loop at the node \<open>current\<close>. The result is the next node and the
  merged state, or the error the run ends with; the last component lists the
  nodes invoked. Neither the interface of section 6 nor \<^verbatim>\<open>src/graph.py\<close>
  designates an error path, so an unmapped label ends the run with an error,
  recorded in the state.
\<close>

definition step :: "CompiledGraph \<Rightarrow> string \<Rightarrow> pydict \<Rightarrow> step_result" where
  "step g current state =
     (case map_of (cg_nodes g) current of
        None \<Rightarrow> Abort (UnknownNode current) state []
      | Some fn \<Rightarrow>
          let state' = merge state (invoke fn state) in
          (case map_of (cg_edges g) current of
             None \<Rightarrow> Abort (RoutingError current) state' [current]
           | Some (Edge target) \<Rightarrow> Goto target state' [current]
           | Some (Conditional route label_map) \<Rightarrow>
               (case route state' of
                  Inl e \<Rightarrow>
                    Abort (RouterFault e) (record_error (fault_text e) state') [current]
                | Inr label \<Rightarrow>
                    (case map_of label_map label of
                       None \<Rightarrow>
                         Abort (RoutingError label) (record_error label state') [current]
                     | Some target \<Rightarrow> Goto target state' [current]))
           | Some (Fanout route targets) \<Rightarrow>
               (let sends = route state' in
                case dispatch (cg_nodes g) state' sends of
                  Inl e \<Rightarrow> Abort e state' [current]
                | Inr updates \<Rightarrow>
                    (case join_of (cg_edges g) (map send_target sends) of
                       None \<Rightarrow>
                         Abort (RoutingError current) (foldl merge state' updates)
                           (current # map send_target sends)
                     | Some j \<Rightarrow>
                         Goto j (foldl merge state' updates)
                           (current # map send_target sends)))))"

text \<open>
  Modelled from the spec: the executor of section 4.5, absent from the sources.
  The ceiling bounds the passes of the loop: a run that would need one more
  ends with \<open>IterationLimitExceeded\<close>. The first component is the list of the
  nodes invoked, in order.
\<close>

fun run_from ::
  "nat \<Rightarrow> CompiledGraph \<Rightarrow> string \<Rightarrow> pydict \<Rightarrow> string list \<times> outcome" where
  "run_from 0 g current state =
     (if current = END then ([], Terminated_success state)
      else ([], Terminated_error IterationLimitExceeded state))"
| "run_from (Suc limit) g current state =
     (if current = END then ([], Terminated_success state)
      else case step g current state of
             Abort e state' visited \<Rightarrow> (visited, Terminated_error e state')
           | Goto next state' visited \<Rightarrow>
               (case run_from limit g next state' of
                  (later, out) \<Rightarrow> (visited @ later, out)))"



section \<open>The graphs of \<^verbatim>\<open>src/graph.py\<close>\<close>

text \<open>
  The node functions and the two routers imported from \<^verbatim>\<open>src/nodes.py\<close>, which is
  not among the sources, are parameters of the graphs.
\<close>

record nodes_module =
  analyze_goal :: node_fn
  breakdown_tasks :: node_fn
  evaluate_tasks :: node_fn
  create_plan :: node_fn
  get_feedback :: node_fn
  refine_plan :: node_fn
  should_get_feedback :: router
  should_refine_plan :: router


text \<open>\<^verbatim>\<open>create_simple_planner_graph\<close> (lines 140-169).\<close>

definition create_simple_planner_graph ::
  "externals \<Rightarrow> nodes_module \<Rightarrow> build_error + CompiledGraph" where
  "create_simple_planner_graph ext nm =
     compile (foldl (\<lambda>b call. call b) StateGraph
       [add_node ''analyze_goal'' (analyze_goal nm),
        add_node ''breakdown_tasks'' (breakdown_tasks nm),
        add_node ''evaluate_tasks'' (evaluate_tasks nm),
        add_node ''create_plan'' (create_plan nm),
        add_node ''finalize'' (finalize_plan ext),
        add_edge START ''analyze_goal'',
        add_edge ''analyze_goal'' ''breakdown_tasks'',
        add_edge ''breakdown_tasks'' ''evaluate_tasks'',
        add_edge ''evaluate_tasks'' ''create_plan'',
        add_edge ''create_plan'' ''finalize'',
        add_edge ''finalize'' END])"

text \<open>
  \<^verbatim>\<open>create_advanced_planner_graph\<close> (lines 172-279). The call of lines 218-222
  passes a router that returns \<^verbatim>\<open>Send\<close> objects and a list of targets: it is the
  fan-out edge of the specification.
\<close>

definition create_advanced_planner_graph ::
  "externals \<Rightarrow> nodes_module \<Rightarrow> build_error + CompiledGraph" where
  "create_advanced_planner_graph ext nm =
     compile (foldl (\<lambda>b call. call b) StateGraph
       [add_node ''analyze_goal'' (analyze_goal nm),
        add_node ''breakdown_tasks'' (breakdown_tasks nm),
        add_node ''evaluate_tasks'' (evaluate_tasks nm),
        add_node ''create_plan'' (create_plan nm),
        add_node ''get_feedback'' (get_feedback nm),
        add_node ''refine_plan'' (refine_plan nm),
        add_node ''finalize'' (finalize_plan ext),
        add_node ''error_handler'' (handle_errors ext),
        add_node ''state_monitor'' (monitor_state ext),
        add_node ''parallel_analysis'' (parallel_analysis ext),
        add_node ''risk_assessment'' (assess_risks ext),
        add_node ''resource_check'' (check_resources ext),
        add_edge START ''analyze_goal'',
        add_edge ''analyze_goal'' ''breakdown_tasks'',
        add_conditional_edges ''breakdown_tasks'' should_do_parallel_analysis
          [(''parallel'', ''parallel_analysis''), (''sequential'', ''evaluate_tasks'')],
        add_fanout_edges ''parallel_analysis'' distribute_parallel_tasks
          [''risk_assessment'', ''resource_check''],
        add_edge ''risk_assessment'' ''evaluate_tasks'',
        add_edge ''resource_check'' ''evaluate_tasks'',
        add_edge ''evaluate_tasks'' ''create_plan'',
        add_conditional_edges ''create_plan'' advanced_feedback_logic
          [(''auto_approve'', ''finalize''), (''get_feedback'', ''get_feedback''),
           (''need_revision'', ''refine_plan'')],
        add_conditional_edges ''get_feedback'' advanced_refinement_logic
          [(''refine'', ''refine_plan''), (''finalize'', ''finalize''),
           (''restart'', ''breakdown_tasks'')],
        add_edge ''refine_plan'' ''state_monitor'',
        add_conditional_edges ''state_monitor'' check_iteration_limit
          [(''continue'', ''get_feedback''), (''force_finalize'', ''finalize''),
           (''error'', ''error_handler'')],
        add_conditional_edges ''error_handler'' error_recovery_logic
          [(''retry'', ''analyze_goal''), (''partial_recovery'', ''create_plan''),
           (''terminate'', END)],
        add_edge ''finalize'' END])"

section \<open>The declared types of the state\<close>

text \<open>
  \<^verbatim>\<open>PlannerState\<close> is declared in \<^verbatim>\<open>src/state.py\<close>, which is not among the
  sources. The field types below are the ones that \<^verbatim>\<open>tests/conftest.py\<close>
  (assert_valid_state) checks and that \<^verbatim>\<open>src/graph.py\<close> relies on; every field may
  be absent, as the reads with a default allow.
\<close>

definition field_is :: "pydict \<Rightarrow> string \<Rightarrow> (pyval \<Rightarrow> bool) \<Rightarrow> bool" where
  "field_is s k P = (case map_of s k of None \<Rightarrow> True | Some v \<Rightarrow> P v)"

fun is_int :: "pyval \<Rightarrow> bool" where
  "is_int (PInt n) = True"
| "is_int v = False"

fun is_str :: "pyval \<Rightarrow> bool" where
  "is_str (PStr s) = True"
| "is_str v = False"

fun is_list :: "pyval \<Rightarrow> bool" where
  "is_list (PList xs) = True"
| "is_list v = False"

fun is_str_list :: "pyval \<Rightarrow> bool" where
  "is_str_list (PList xs) = list_all is_str xs"
| "is_str_list v = False"

fun is_optional_config :: "pyval \<Rightarrow> bool" where
  "is_optional_config PNone = True"
| "is_optional_config (PConfig c) = True"
| "is_optional_config v = False"

fun is_optional_analysis :: "pyval \<Rightarrow> bool" where
  "is_optional_analysis PNone = True"
| "is_optional_analysis (PAnalysis a) = True"
| "is_optional_analysis v = False"

fun is_optional_plan :: "pyval \<Rightarrow> bool" where
  "is_optional_plan PNone = True"
| "is_optional_plan (PPlan p) = True"
| "is_optional_plan v = False"

fun is_optional_feedback :: "pyval \<Rightarrow> bool" where
  "is_optional_feedback PNone = True"
| "is_optional_feedback (PFeedback f) = True"
| "is_optional_feedback v = False"

definition typed_state :: "pydict \<Rightarrow> bool" where
  "typed_state s \<longleftrightarrow>
     field_is s ''iteration_count'' is_int \<and>
     field_is s ''current_phase'' is_str \<and>
     field_is s ''subtasks'' is_list \<and>
     field_is s ''processing_notes'' is_str_list \<and>
     field_is s ''errors'' is_str_list \<and>
     field_is s ''config'' is_optional_config \<and>
     field_is s ''task_analysis'' is_optional_analysis \<and>
     field_is s ''execution_plan'' is_optional_plan \<and>
     field_is s ''feedback'' is_optional_feedback"

text \<open>
  The number that \<^verbatim>\<open>state.get("iteration_count", 0)\<close> reads: 0 when the key is
  absent, and a bool as Python compares it, \<open>True\<close> as 1 and \<open>False\<close> as 0. A value
  that is not a number has no order in Python (comparing it raises); it is read
  as 0.
\<close>

definition iteration_count_of :: "pydict \<Rightarrow> int" where
  "iteration_count_of s =
     (case get_or s ''iteration_count'' (PInt 0) of
        PInt n \<Rightarrow> n
      | PBool b \<Rightarrow> (if b then 1 else 0)
      | _ \<Rightarrow> 0)"

text \<open>The state holds a non-empty list under \<^verbatim>\<open>errors\<close>.\<close>

definition errors_recorded :: "pydict \<Rightarrow> bool" where
  "errors_recorded s =
     (case map_of s ''errors'' of Some (PList (e # es)) \<Rightarrow> True | _ \<Rightarrow> False)"


definition keeps_errors :: "node_fn \<Rightarrow> bool" where
  "keeps_errors fn =
     (\<forall>s s'. errors_recorded s' \<longrightarrow> errors_recorded (merge s' (invoke fn s)))"



text \<open>
  \<^verbatim>\<open>config.max_iterations\<close> as the nodes and routers of \<^verbatim>\<open>src/graph.py\<close> read it
  (lines 358 and 362, 481 and 486): \<^verbatim>\<open>config = state.get("config") or PlannerConfig()\<close>.
\<close>

definition max_iterations_of :: "pydict \<Rightarrow> pyerr + int" where
  "max_iterations_of state =
     attr_max_iterations (py_or (get state ''config'') (PConfig PlannerConfig_default))"










fun keep_label :: "string \<Rightarrow> edge_def \<Rightarrow> edge_def" where
  "keep_label x (Conditional route label_map) =
     Conditional route (filter (\<lambda>lt. fst lt = x) label_map)"
| "keep_label x e = e"

definition only_label :: "string \<Rightarrow> string \<Rightarrow> CompiledGraph \<Rightarrow> CompiledGraph" where
  "only_label b x g =
     g\<lparr>cg_edges := map (\<lambda>ne. if fst ne = b then (fst ne, keep_label x (snd ne)) else ne)
                       (cg_edges g)\<rparr>"

section \<open>Instances of the parameters\<close>

text \<open>
  The worked examples need values for the parameters. These are not taken from the
  sources: they are the simplest functions of the right shape. The metadata helper
  stores the phase, the note helper appends the note, a node of
  \<^verbatim>\<open>src/nodes.py\<close> returns the empty update, except that \<open>refine_plan\<close> counts
  its passes in \<^verbatim>\<open>iteration_count\<close>; the two routers are arguments.
\<close>

definition plain_externals :: externals where
  "plain_externals =
     \<lparr>update_state_metadata = (\<lambda>state phase. Inr [(''current_phase'', PStr phase)]),
      add_processing_note = (\<lambda>state note.
        raising (list_concat (get_or state ''processing_notes'' (PList [])) [PStr note])
          (\<lambda>notes. Inr [(''processing_notes'', notes)])),
      py_repr = (\<lambda>v. ''<object>''),
      py_iter = (\<lambda>v. Inl TypeError),
      format_1f = (\<lambda>h. ''0.0'')\<rparr>"

definition counting_nodes :: "router \<Rightarrow> router \<Rightarrow> nodes_module" where
  "counting_nodes feedback_router refine_router =
     \<lparr>analyze_goal = (\<lambda>state. Inr []),
      breakdown_tasks = (\<lambda>state. Inr []),
      evaluate_tasks = (\<lambda>state. Inr []),
      create_plan = (\<lambda>state. Inr []),
      get_feedback = (\<lambda>state. Inr []),
      refine_plan = (\<lambda>state.
        Inr [(''iteration_count'', PInt (iteration_count_of state + 1))]),
      should_get_feedback = feedback_router,
      should_refine_plan = refine_router\<rparr>"









text \<open>
  A module whose first node faults and whose second node stores an empty
  \<^verbatim>\<open>errors\<close> list.
\<close>

definition clearing_nodes :: nodes_module where
  "clearing_nodes =
     \<lparr>analyze_goal = (\<lambda>state. Inl TypeError),
      breakdown_tasks = (\<lambda>state. Inr [(''errors'', PList [])]),
      evaluate_tasks = (\<lambda>state. Inr []),
      create_plan = (\<lambda>state. Inr []),
      get_feedback = (\<lambda>state. Inr []),
      refine_plan = (\<lambda>state. Inr []),
      should_get_feedback = (\<lambda>state. Inr ''finalize''),
      should_refine_plan = (\<lambda>state. Inr ''finalize'')\<rparr>"

section \<open>Computations that may raise, and typed fields\<close>

lemma raising_Inr_iff:
  "raising r f = Inr y \<longleftrightarrow> (\<exists>x. r = Inr x \<and> f x = Inr y)"
  by (cases r) (simp_all add: raising_def)

lemma raising_Inr [simp]: "raising (Inr x) f = f x"
  by (simp add: raising_def)

lemma raising_Inl [simp]: "raising (Inl e) f = Inl e"
  by (simp add: raising_def)

lemma list_concat_Inr_iff:
  "list_concat v ys = Inr w \<longleftrightarrow> (\<exists>xs. v = PList xs \<and> w = PList (xs @ ys))"
  by (cases v) auto

lemma field_is_str_list:
  assumes "field_is s k is_str_list"
  shows "\<exists>xs. get_or s k (PList []) = PList xs"
proof (cases "map_of s k")
  case None
  then show ?thesis by (simp add: get_or_def)
next
  case (Some v)
  with assms have "is_str_list v" by (simp add: field_is_def)
  then obtain xs where "v = PList xs" by (cases v) simp_all
  with Some show ?thesis by (simp add: get_or_def)
qed

lemma field_is_list:
  assumes "field_is s k is_list"
  shows "\<exists>xs. get_or s k (PList []) = PList xs"
proof (cases "map_of s k")
  case None
  then show ?thesis by (simp add: get_or_def)
next
  case (Some v)
  with assms have "is_list v" by (simp add: field_is_def)
  then obtain xs where "v = PList xs" by (cases v) simp_all
  with Some show ?thesis by (simp add: get_or_def)
qed

lemma field_is_int:
  assumes "field_is s k is_int"
  shows "\<exists>n. get_or s k (PInt 0) = PInt n"
proof (cases "map_of s k")
  case None
  then show ?thesis by (simp add: get_or_def)
next
  case (Some v)
  with assms have "is_int v" by (simp add: field_is_def)
  then obtain n where "v = PInt n" by (cases v) simp_all
  with Some show ?thesis by (simp add: get_or_def)
qed

lemma field_is_optional_plan:
  assumes "field_is s k is_optional_plan"
  shows "get s k = PNone \<or> (\<exists>p. get s k = PPlan p)"
proof (cases "map_of s k")
  case None
  then show ?thesis by (simp add: get_or_def get_def)
next
  case (Some v)
  with assms have "is_optional_plan v" by (simp add: field_is_def)
  then have "v = PNone \<or> (\<exists>p. v = PPlan p)" by (cases v) simp_all
  with Some show ?thesis by (auto simp: get_or_def get_def)
qed

lemma field_is_optional_config:
  assumes "field_is s k is_optional_config"
  shows "get s k = PNone \<or> (\<exists>c. get s k = PConfig c)"
proof (cases "map_of s k")
  case None
  then show ?thesis by (simp add: get_or_def get_def)
next
  case (Some v)
  with assms have "is_optional_config v" by (simp add: field_is_def)
  then have "v = PNone \<or> (\<exists>c. v = PConfig c)" by (cases v) simp_all
  with Some show ?thesis by (auto simp: get_or_def get_def)
qed

lemma field_is_optional_analysis:
  assumes "field_is s k is_optional_analysis"
  shows "get s k = PNone \<or> (\<exists>a. get s k = PAnalysis a)"
proof (cases "map_of s k")
  case None
  then show ?thesis by (simp add: get_or_def get_def)
next
  case (Some v)
  with assms have "is_optional_analysis v" by (simp add: field_is_def)
  then have "v = PNone \<or> (\<exists>a. v = PAnalysis a)" by (cases v) simp_all
  with Some show ?thesis by (auto simp: get_or_def get_def)
qed

section \<open>Dictionaries: what a merge keeps and what it overwrites\<close>

lemma map_of_dict_set: "map_of (dict_set k v d) = (map_of d)(k \<mapsto> v)"
  by (induction d) (auto simp: fun_eq_iff)

lemma keys_dict_set: "set (keys (dict_set k v d)) = insert k (set (keys d))"
proof (induction d)
  case Nil
  show ?case by (simp add: keys_def)
next
  case (Cons a d)
  obtain k' v' where a: "a = (k', v')" by (cases a)
  have "set (map fst (dict_set k v d)) = insert k (set (map fst d))"
    using Cons.IH by (simp add: keys_def)
  then show ?case unfolding keys_def a by (cases "k' = k") auto
qed

lemma distinct_dict_set: "distinct (keys d) \<Longrightarrow> distinct (keys (dict_set k v d))"
proof (induction d)
  case Nil
  then show ?case by (simp add: keys_def)
next
  case (Cons a d)
  obtain k' v' where a: "a = (k', v')" by (cases a)
  from Cons.prems have d: "distinct (keys d)" and nin: "k' \<notin> set (keys d)"
    by (auto simp: keys_def a)
  show ?case
  proof (cases "k' = k")
    case True
    then show ?thesis using Cons.prems by (simp add: a keys_def)
  next
    case False
    have "k' \<notin> set (keys (dict_set k v d))"
      using nin False by (simp add: keys_dict_set)
    moreover have "distinct (keys (dict_set k v d))" using Cons.IH d by simp
    ultimately show ?thesis using False by (simp add: a keys_def)
  qed
qed

lemma merge_Nil: "merge s [] = s"
  by (simp add: merge_def)

lemma merge_Cons: "merge s ((k, v) # p) = merge (dict_set k v s) p"
  by (simp add: merge_def)

lemma map_of_merge_notin: "k \<notin> set (keys p) \<Longrightarrow> map_of (merge s p) k = map_of s k"
proof (induction p arbitrary: s)
  case Nil
  show ?case by (simp add: merge_Nil)
next
  case (Cons a p)
  obtain k' v' where a: "a = (k', v')" by (cases a)
  from Cons.prems have ne: "k \<noteq> k'" and nin: "k \<notin> set (keys p)"
    by (auto simp: keys_def a)
  have "map_of (merge s (a # p)) k = map_of (dict_set k' v' s) k"
    unfolding a merge_Cons by (rule Cons.IH [OF nin])
  also have "\<dots> = map_of s k" using ne by (simp add: map_of_dict_set)
  finally show ?case .
qed

lemma map_of_merge_in:
  "distinct (keys p) \<Longrightarrow> k \<in> set (keys p) \<Longrightarrow> map_of (merge s p) k = map_of p k"
proof (induction p arbitrary: s)
  case Nil
  then show ?case by (simp add: keys_def)
next
  case (Cons a p)
  obtain k' v' where a: "a = (k', v')" by (cases a)
  from Cons.prems have d: "distinct (keys p)" and nin: "k' \<notin> set (keys p)"
    by (auto simp: keys_def a)
  show ?case
  proof (cases "k = k'")
    case True
    have "map_of (merge s (a # p)) k = map_of (dict_set k' v' s) k"
      unfolding a merge_Cons using nin True by (simp add: map_of_merge_notin)
    then show ?thesis using True by (simp add: a map_of_dict_set)
  next
    case False
    with Cons.prems have "k \<in> set (keys p)" by (auto simp: keys_def a)
    from Cons.IH [OF d this] show ?thesis
      using False by (simp add: a merge_Cons)
  qed
qed

lemma keys_merge: "set (keys (merge s p)) = set (keys s) \<union> set (keys p)"
proof (induction p arbitrary: s)
  case Nil
  show ?case by (simp add: merge_Nil keys_def)
next
  case (Cons a p)
  obtain k' v' where a: "a = (k', v')" by (cases a)
  show ?case unfolding a merge_Cons Cons.IH keys_dict_set by (auto simp: keys_def)
qed

lemma distinct_merge: "distinct (keys s) \<Longrightarrow> distinct (keys (merge s p))"
proof (induction p arbitrary: s)
  case Nil
  then show ?case by (simp add: merge_Nil)
next
  case (Cons a p)
  obtain k' v' where a: "a = (k', v')" by (cases a)
  show ?case unfolding a merge_Cons
    by (rule Cons.IH) (rule distinct_dict_set [OF Cons.prems])
qed

text \<open>
  Claim C2. For every state \<open>s\<close> and every partial update \<open>p\<close> (a dictionary, so
  with each key once), the merged state \<open>{**s, **p}\<close> has \<open>p\<close>'s value under every
  key of \<open>p\<close> and \<open>s\<close>'s value under every other key; no key of \<open>s\<close> is removed;
  merging the empty update changes nothing, so that merging \<open>p1\<close> and then the
  empty update is the same as merging \<open>p1\<close>.
\<close>

theorem merge_overwrites_and_preserves:
  assumes "distinct (keys p)"
  shows "(\<forall>k \<in> set (keys p). map_of (merge s p) k = map_of p k)
       \<and> (\<forall>k. k \<notin> set (keys p) \<longrightarrow> map_of (merge s p) k = map_of s k)
       \<and> set (keys s) \<subseteq> set (keys (merge s p))
       \<and> merge s [] = s
       \<and> merge (merge s p1) [] = merge s p1"
  using assms
  by (simp add: map_of_merge_in map_of_merge_notin keys_merge merge_Nil)

theorem merge_overwrites_and_preserves_witness:
  "distinct (keys [(''b'', 3::nat), (''c'', 4)])
   \<and> map_of (merge [(''a'', 1), (''b'', 2)] [(''b'', 3::nat), (''c'', 4)]) ''b'' = Some 3
   \<and> map_of (merge [(''a'', 1), (''b'', 2)] [(''b'', 3::nat), (''c'', 4)]) ''c'' = Some 4
   \<and> map_of (merge [(''a'', 1), (''b'', 2)] [(''b'', 3::nat), (''c'', 4)]) ''a'' = Some 1
   \<and> merge [(''a'', 1), (''b'', 2)] [(''b'', 3::nat), (''c'', 4)]
        = [(''a'', 1), (''b'', 3), (''c'', 4)]"
proof -
  have h: "distinct (keys [(''b'', 3::nat), (''c'', 4)])" by (simp add: keys_def)
  from merge_overwrites_and_preserves [OF h, of "[(''a'', 1), (''b'', 2)]"]
  show ?thesis using h by (simp add: keys_def merge_def)
qed

section \<open>The helper nodes\<close>

lemma finalize_plan_Inr:
  assumes "finalize_plan ext state = Inr u"
  shows "\<exists>n old meta final.
           py_len (get_or state ''subtasks'' (PList [])) = Inr n
         \<and> get_or state ''processing_notes'' (PList []) = PList old
         \<and> update_state_metadata ext state ''completed'' = Inr meta
         \<and> take 3 final =
              [lit_finalized,
               lit_total_pre @ py_format ext (get_or state ''iteration_count'' (PInt 0))
                 @ lit_total_post,
               lit_final_pre @ str_nat n @ lit_final_post]
         \<and> (length final = 3 \<or> length final = 4)
         \<and> u = dict_set ''is_plan_approved'' (PBool True)
                 (dict_set ''processing_notes'' (PList (old @ map PStr final)) meta)"
proof -
  from assms obtain n where n: "py_len (get_or state ''subtasks'' (PList [])) = Inr n"
    unfolding finalize_plan_def Let_def raising_Inr_iff by blast
  define base where "base =
     [lit_finalized,
      lit_total_pre @ py_format ext (get_or state ''iteration_count'' (PInt 0))
        @ lit_total_post,
      lit_final_pre @ str_nat n @ lit_final_post]"
  define fnotes where "fnotes =
     (if truthy (get state ''execution_plan'')
      then raising (attr_estimated_total_hours (get state ''execution_plan'')) (\<lambda>h.
             Inr (base @ [lit_hours_pre @ format_1f ext h @ lit_hours_post]))
      else Inr base)"
  have eq: "finalize_plan ext state =
     raising fnotes (\<lambda>final_notes.
       raising (update_state_metadata ext state ''completed'') (\<lambda>meta.
       raising (list_concat (get_or state ''processing_notes'' (PList []))
                  (map PStr final_notes)) (\<lambda>notes.
         Inr (dict_set ''is_plan_approved'' (PBool True)
               (dict_set ''processing_notes'' notes meta)))))"
    unfolding finalize_plan_def Let_def n fnotes_def base_def by simp
  from assms obtain final meta old where
    final: "fnotes = Inr final"
    and meta: "update_state_metadata ext state ''completed'' = Inr meta"
    and old: "get_or state ''processing_notes'' (PList []) = PList old"
    and u: "u = dict_set ''is_plan_approved'' (PBool True)
                 (dict_set ''processing_notes'' (PList (old @ map PStr final)) meta)"
    unfolding eq raising_Inr_iff list_concat_Inr_iff by auto
  have "take 3 final = base \<and> (length final = 3 \<or> length final = 4)"
  proof (cases "truthy (get state ''execution_plan'')")
    case True
    with final obtain h where "final = base @ [lit_hours_pre @ format_1f ext h @ lit_hours_post]"
      unfolding fnotes_def by (auto simp: raising_Inr_iff)
    then show ?thesis by (simp add: base_def)
  next
    case False
    with final have "final = base" unfolding fnotes_def by simp
    then show ?thesis by (simp add: base_def)
  qed
  with n old meta u show ?thesis unfolding base_def by blast
qed

lemma finalize_plan_returns:
  assumes ts: "typed_state state"
    and meta: "update_state_metadata ext state ''completed'' = Inr meta"
  shows "\<exists>u. finalize_plan ext state = Inr u"
proof -
  from ts obtain subs where subs: "get_or state ''subtasks'' (PList []) = PList subs"
    unfolding typed_state_def by (blast dest: field_is_list)
  from ts obtain old where old: "get_or state ''processing_notes'' (PList []) = PList old"
    unfolding typed_state_def by (blast dest: field_is_str_list)
  from ts have "get state ''execution_plan'' = PNone
      \<or> (\<exists>p. get state ''execution_plan'' = PPlan p)"
    unfolding typed_state_def by (blast dest: field_is_optional_plan)
  then show ?thesis
  proof
    assume "get state ''execution_plan'' = PNone"
    then show ?thesis
      unfolding finalize_plan_def Let_def subs old by (simp add: meta)
  next
    assume "\<exists>p. get state ''execution_plan'' = PPlan p"
    then obtain p where "get state ''execution_plan'' = PPlan p" ..
    then show ?thesis
      unfolding finalize_plan_def Let_def subs old by (simp add: meta)
  qed
qed

text \<open>
  Claim C10. For every input state, the update that \<open>finalize_plan\<close> returns sets
  \<^verbatim>\<open>is_plan_approved\<close> to \<open>True\<close>, whatever the state says about an approval and so
  also when the node was reached by the forced route; its \<^verbatim>\<open>processing_notes\<close> are
  the notes of the input state followed by the three or four final notes, the
  first of them the note of completion. On a state of the declared types the node
  returns, provided the metadata helper does.
\<close>

theorem finalize_plan_always_approves:
  "(\<forall>u. finalize_plan ext state = Inr u \<longrightarrow>
        map_of u ''is_plan_approved'' = Some (PBool True)
      \<and> (\<exists>old final.
            get_or state ''processing_notes'' (PList []) = PList old
          \<and> map_of u ''processing_notes'' = Some (PList (old @ map PStr final))
          \<and> hd final = lit_finalized
          \<and> (length final = 3 \<or> length final = 4)))
   \<and> (typed_state state \<and> (\<exists>meta. update_state_metadata ext state ''completed'' = Inr meta)
        \<longrightarrow> (\<exists>u. finalize_plan ext state = Inr u))"
proof (intro conjI allI impI)
  fix u assume u: "finalize_plan ext state = Inr u"
  from finalize_plan_Inr [OF u] obtain n old meta final where
    old: "get_or state ''processing_notes'' (PList []) = PList old"
    and tk: "take 3 final =
              [lit_finalized,
               lit_total_pre @ py_format ext (get_or state ''iteration_count'' (PInt 0))
                 @ lit_total_post,
               lit_final_pre @ str_nat n @ lit_final_post]"
    and len: "length final = 3 \<or> length final = 4"
    and ueq: "u = dict_set ''is_plan_approved'' (PBool True)
                 (dict_set ''processing_notes'' (PList (old @ map PStr final)) meta)"
    by blast
  show "map_of u ''is_plan_approved'' = Some (PBool True)"
    unfolding ueq by (simp add: map_of_dict_set)
  from len obtain x xs where fx: "final = x # xs" by (cases final) auto
  with tk have "x = lit_finalized" by simp
  with fx have hd: "hd final = lit_finalized" by simp
  have "map_of u ''processing_notes'' = Some (PList (old @ map PStr final))"
    unfolding ueq by (simp add: map_of_dict_set)
  with hd old len show "\<exists>old final.
            get_or state ''processing_notes'' (PList []) = PList old
          \<and> map_of u ''processing_notes'' = Some (PList (old @ map PStr final))
          \<and> hd final = lit_finalized
          \<and> (length final = 3 \<or> length final = 4)"
    by blast
next
  assume "typed_state state \<and> (\<exists>meta. update_state_metadata ext state ''completed'' = Inr meta)"
  then show "\<exists>u. finalize_plan ext state = Inr u"
    by (blast intro: finalize_plan_returns)
qed

theorem finalize_plan_always_approves_witness:
  "typed_state
     [(''iteration_count'', PInt 3), (''is_plan_approved'', PBool False),
      (''processing_notes'', PList [PStr ''monitored'']), (''subtasks'', PList [])]
   \<and> (\<exists>meta. update_state_metadata plain_externals
         [(''iteration_count'', PInt 3), (''is_plan_approved'', PBool False),
          (''processing_notes'', PList [PStr ''monitored'']), (''subtasks'', PList [])]
         ''completed'' = Inr meta)
   \<and> (\<exists>u. finalize_plan plain_externals
         [(''iteration_count'', PInt 3), (''is_plan_approved'', PBool False),
          (''processing_notes'', PList [PStr ''monitored'']), (''subtasks'', PList [])]
         = Inr u
       \<and> map_of u ''is_plan_approved'' = Some (PBool True)
       \<and> (\<exists>final. map_of u ''processing_notes''
                      = Some (PList ([PStr ''monitored''] @ map PStr final))
                  \<and> hd final = lit_finalized))"
proof -
  let ?s = "[(''iteration_count'', PInt 3), (''is_plan_approved'', PBool False),
      (''processing_notes'', PList [PStr ''monitored'']), (''subtasks'', PList [])]"
  have t: "typed_state ?s"
    by (simp add: typed_state_def field_is_def)
  have m: "\<exists>meta. update_state_metadata plain_externals ?s ''completed'' = Inr meta"
    by (simp add: plain_externals_def)
  have old: "get_or ?s ''processing_notes'' (PList []) = PList [PStr ''monitored'']"
    by (simp add: get_or_def)
  from finalize_plan_always_approves [of plain_externals ?s] t m
  obtain u where u: "finalize_plan plain_externals ?s = Inr u" by blast
  with finalize_plan_always_approves [of plain_externals ?s]
  have "map_of u ''is_plan_approved'' = Some (PBool True)
      \<and> (\<exists>old final.
            get_or ?s ''processing_notes'' (PList []) = PList old
          \<and> map_of u ''processing_notes'' = Some (PList (old @ map PStr final))
          \<and> hd final = lit_finalized
          \<and> (length final = 3 \<or> length final = 4))"
    by blast
  with old have "map_of u ''is_plan_approved'' = Some (PBool True)
      \<and> (\<exists>final. map_of u ''processing_notes''
                      = Some (PList ([PStr ''monitored''] @ map PStr final))
                  \<and> hd final = lit_finalized)"
    by auto
  with t m u show ?thesis by blast
qed

section \<open>The execution trace\<close>

text \<open>
  Claim C9. For every final state (its \<^verbatim>\<open>processing_notes\<close> absent or a list), the
  trace is a list of 1 + len(processing_notes) strings: the first names the
  \<^verbatim>\<open>current_phase\<close> of the state, or \<open>unknown\<close> when the field is absent, and the
  others are the notes of the state, one each and in their stored order. The
  function only reads its argument: the state is not among its results.
\<close>

theorem get_execution_trace_lists_phase_and_notes:
  assumes "get_or result ''processing_notes'' (PList []) = PList notes"
  shows "get_execution_trace ext result =
           Inr ((lit_final_phase
                   @ py_format ext (get_or result ''current_phase'' (PStr ''unknown'')))
                # map (\<lambda>note. ''- '' @ py_format ext note) notes)
       \<and> (\<exists>trace. get_execution_trace ext result = Inr trace
             \<and> length trace = 1 + length notes
             \<and> (\<forall>i < length notes. trace ! (i + 1) = ''- '' @ py_format ext (notes ! i)))
       \<and> (map_of result ''current_phase'' = None \<longrightarrow>
             (\<exists>trace. get_execution_trace ext result = Inr trace
                \<and> hd trace = lit_final_phase @ ''unknown''))"
  using assms by (simp add: get_execution_trace_def get_or_def)

theorem get_execution_trace_witness:
  "get_or [(''current_phase'', PStr ''completed''),
           (''processing_notes'', PList [PStr ''a'', PStr ''b''])]
      ''processing_notes'' (PList []) = PList [PStr ''a'', PStr ''b'']
   \<and> get_execution_trace plain_externals
         [(''current_phase'', PStr ''completed''),
          (''processing_notes'', PList [PStr ''a'', PStr ''b''])]
       = Inr [lit_final_phase @ ''completed'', ''- a'', ''- b'']"
proof -
  have h: "get_or [(''current_phase'', PStr ''completed''),
                   (''processing_notes'', PList [PStr ''a'', PStr ''b''])]
             ''processing_notes'' (PList []) = PList [PStr ''a'', PStr ''b'']"
    by (simp add: get_or_def)
  from get_execution_trace_lists_phase_and_notes [OF h, of plain_externals]
  show ?thesis using h by (simp add: get_or_def)
qed

section \<open>The routers and their label maps\<close>

lemma check_iteration_limit_labels:
  "check_iteration_limit s = Inr l \<Longrightarrow> l \<in> {''continue'', ''force_finalize'', ''error''}"
  unfolding check_iteration_limit_def Let_def
  by (auto simp: raising_Inr_iff split: if_splits)

lemma advanced_feedback_logic_labels:
  "advanced_feedback_logic s = Inr l \<Longrightarrow> l \<in> {''auto_approve'', ''get_feedback'', ''need_revision''}"
  unfolding advanced_feedback_logic_def Let_def
  by (auto simp: raising_Inr_iff split: if_splits)

lemma error_recovery_logic_labels:
  "error_recovery_logic s = Inr l \<Longrightarrow> l \<in> {''retry'', ''partial_recovery'', ''terminate''}"
  unfolding error_recovery_logic_def Let_def
  by (auto simp: raising_Inr_iff split: if_splits)


lemma py_or_config:
  "get s ''config'' = PNone \<or> (\<exists>c. get s ''config'' = PConfig c) \<Longrightarrow>
   \<exists>c. py_or (get s ''config'') (PConfig PlannerConfig_default) = PConfig c"
  by (auto simp: py_or_def)

lemma check_iteration_limit_returns:
  assumes "typed_state s"
  shows "\<exists>l. check_iteration_limit s = Inr l"
proof -
  from assms have "get s ''config'' = PNone \<or> (\<exists>c. get s ''config'' = PConfig c)"
    unfolding typed_state_def by (blast dest: field_is_optional_config)
  from py_or_config [OF this]
  obtain c where c: "py_or (get s ''config'') (PConfig PlannerConfig_default) = PConfig c" ..
  from assms obtain n where n: "get_or s ''iteration_count'' (PInt 0) = PInt n"
    unfolding typed_state_def by (blast dest: field_is_int)
  show ?thesis
    unfolding check_iteration_limit_def Let_def c n by simp
qed

lemma advanced_feedback_logic_returns:
  assumes "typed_state s"
  shows "\<exists>l. advanced_feedback_logic s = Inr l"
proof -
  from assms have "get s ''config'' = PNone \<or> (\<exists>c. get s ''config'' = PConfig c)"
    unfolding typed_state_def by (blast dest: field_is_optional_config)
  from py_or_config [OF this]
  obtain c where c: "py_or (get s ''config'') (PConfig PlannerConfig_default) = PConfig c" ..
  from assms have "get s ''task_analysis'' = PNone \<or> (\<exists>a. get s ''task_analysis'' = PAnalysis a)"
    unfolding typed_state_def by (blast dest: field_is_optional_analysis)
  then show ?thesis
  proof
    assume "get s ''task_analysis'' = PNone"
    then show ?thesis unfolding advanced_feedback_logic_def Let_def c by simp
  next
    assume "\<exists>a. get s ''task_analysis'' = PAnalysis a"
    then obtain a where "get s ''task_analysis'' = PAnalysis a" ..
    then show ?thesis unfolding advanced_feedback_logic_def Let_def c by simp
  qed
qed

lemma error_recovery_logic_returns:
  assumes "typed_state s"
  shows "\<exists>l. error_recovery_logic s = Inr l"
proof -
  from assms obtain es where es: "get_or s ''errors'' (PList []) = PList es"
    unfolding typed_state_def by (blast dest: field_is_str_list)
  from assms obtain n where n: "get_or s ''iteration_count'' (PInt 0) = PInt n"
    unfolding typed_state_def by (blast dest: field_is_int)
  show ?thesis
    unfolding error_recovery_logic_def Let_def es n by simp
qed

lemmas builder_defs = StateGraph_def add_node_def add_edge_def add_conditional_edges_def
  add_fanout_edges_def keys_def compile_def problems_def
  unknown_names_def ambiguous_sources_def START_def END_def

lemma advanced_graph_compiles:
  "create_advanced_planner_graph ext nm =
     Inr \<lparr>cg_nodes =
            [(''analyze_goal'', analyze_goal nm),
             (''breakdown_tasks'', breakdown_tasks nm),
             (''evaluate_tasks'', evaluate_tasks nm),
             (''create_plan'', create_plan nm),
             (''get_feedback'', get_feedback nm),
             (''refine_plan'', refine_plan nm),
             (''finalize'', finalize_plan ext),
             (''error_handler'', handle_errors ext),
             (''state_monitor'', monitor_state ext),
             (''parallel_analysis'', parallel_analysis ext),
             (''risk_assessment'', assess_risks ext),
             (''resource_check'', check_resources ext)],
          cg_edges =
            [(''__start__'', Edge ''analyze_goal''),
             (''analyze_goal'', Edge ''breakdown_tasks''),
             (''breakdown_tasks'',
              Conditional should_do_parallel_analysis
                [(''parallel'', ''parallel_analysis''), (''sequential'', ''evaluate_tasks'')]),
             (''parallel_analysis'',
              Fanout distribute_parallel_tasks [''risk_assessment'', ''resource_check'']),
             (''risk_assessment'', Edge ''evaluate_tasks''),
             (''resource_check'', Edge ''evaluate_tasks''),
             (''evaluate_tasks'', Edge ''create_plan''),
             (''create_plan'',
              Conditional advanced_feedback_logic
                [(''auto_approve'', ''finalize''), (''get_feedback'', ''get_feedback''),
                 (''need_revision'', ''refine_plan'')]),
             (''get_feedback'',
              Conditional advanced_refinement_logic
                [(''refine'', ''refine_plan''), (''finalize'', ''finalize''),
                 (''restart'', ''breakdown_tasks'')]),
             (''refine_plan'', Edge ''state_monitor''),
             (''state_monitor'',
              Conditional check_iteration_limit
                [(''continue'', ''get_feedback''), (''force_finalize'', ''finalize''),
                 (''error'', ''error_handler'')]),
             (''error_handler'',
              Conditional error_recovery_logic
                [(''retry'', ''analyze_goal''), (''partial_recovery'', ''create_plan''),
                 (''terminate'', ''__end__'')]),
             (''finalize'', Edge ''__end__'')],
          cg_entry = ''analyze_goal''\<rparr>"
  by (simp add: create_advanced_planner_graph_def builder_defs)


lemma step_conditional_no_routing_error:
  assumes n: "map_of (cg_nodes g) n = Some fn"
    and e: "map_of (cg_edges g) n = Some (Conditional r m)"
    and total: "\<And>s l. r s = Inr l \<Longrightarrow> \<exists>t. map_of m l = Some t"
  shows "step g n s \<noteq> Abort (RoutingError l) st vs"
proof (cases "r (merge s (invoke fn s))")
  case (Inl err)
  then show ?thesis by (simp add: step_def n e)
next
  case (Inr label)
  from total [OF Inr] obtain t where "map_of m label = Some t" ..
  with Inr show ?thesis by (simp add: step_def n e)
qed

text \<open>
  Claim C7. Each of the three routers, whenever it returns, returns one of its
  three labels, and each of them is a key of the label map that
  \<open>create_advanced_planner_graph\<close> registers the router with; on a state of the
  declared types each router returns. So the pass of the executor at
  \<open>state_monitor\<close>, \<open>create_plan\<close> or \<open>error_handler\<close> never ends with the routing
  error of an unmapped label.
\<close>

theorem routers_return_mapped_labels:
  "\<exists>g m1 m2 m3.
      create_advanced_planner_graph ext nm = Inr g
    \<and> map_of (cg_edges g) ''state_monitor'' = Some (Conditional check_iteration_limit m1)
    \<and> map_of (cg_edges g) ''create_plan'' = Some (Conditional advanced_feedback_logic m2)
    \<and> map_of (cg_edges g) ''error_handler'' = Some (Conditional error_recovery_logic m3)
    \<and> (\<forall>l. check_iteration_limit s = Inr l \<longrightarrow>
           l \<in> {''continue'', ''force_finalize'', ''error''} \<and> l \<in> set (keys m1))
    \<and> (\<forall>l. advanced_feedback_logic s = Inr l \<longrightarrow>
           l \<in> {''auto_approve'', ''get_feedback'', ''need_revision''} \<and> l \<in> set (keys m2))
    \<and> (\<forall>l. error_recovery_logic s = Inr l \<longrightarrow>
           l \<in> {''retry'', ''partial_recovery'', ''terminate''} \<and> l \<in> set (keys m3))
    \<and> (typed_state s \<longrightarrow>
           (\<exists>l1 l2 l3. check_iteration_limit s = Inr l1
                     \<and> advanced_feedback_logic s = Inr l2
                     \<and> error_recovery_logic s = Inr l3))
    \<and> (\<forall>l st vs. step g ''state_monitor'' s \<noteq> Abort (RoutingError l) st vs
                 \<and> step g ''create_plan'' s \<noteq> Abort (RoutingError l) st vs
                 \<and> step g ''error_handler'' s \<noteq> Abort (RoutingError l) st vs)"
proof -
  let ?m1 = "[(''continue'', ''get_feedback''), (''force_finalize'', ''finalize''),
              (''error'', ''error_handler'')]"
  let ?m2 = "[(''auto_approve'', ''finalize''), (''get_feedback'', ''get_feedback''),
              (''need_revision'', ''refine_plan'')]"
  let ?m3 = "[(''retry'', ''analyze_goal''), (''partial_recovery'', ''create_plan''),
              (''terminate'', ''__end__'')]"
  obtain g where g: "create_advanced_planner_graph ext nm = Inr g"
    and e1: "map_of (cg_edges g) ''state_monitor'' = Some (Conditional check_iteration_limit ?m1)"
    and e2: "map_of (cg_edges g) ''create_plan'' = Some (Conditional advanced_feedback_logic ?m2)"
    and e3: "map_of (cg_edges g) ''error_handler'' = Some (Conditional error_recovery_logic ?m3)"
    and n1: "map_of (cg_nodes g) ''state_monitor'' = Some (monitor_state ext)"
    and n2: "map_of (cg_nodes g) ''create_plan'' = Some (create_plan nm)"
    and n3: "map_of (cg_nodes g) ''error_handler'' = Some (handle_errors ext)"
    by (simp add: advanced_graph_compiles)
  have t1: "\<exists>t. map_of ?m1 l = Some t" if "check_iteration_limit s' = Inr l" for s' l
    using check_iteration_limit_labels [OF that] by auto
  have t2: "\<exists>t. map_of ?m2 l = Some t" if "advanced_feedback_logic s' = Inr l" for s' l
    using advanced_feedback_logic_labels [OF that] by auto
  have t3: "\<exists>t. map_of ?m3 l = Some t" if "error_recovery_logic s' = Inr l" for s' l
    using error_recovery_logic_labels [OF that] by auto
  have l1: "\<forall>l. check_iteration_limit s = Inr l \<longrightarrow>
           l \<in> {''continue'', ''force_finalize'', ''error''} \<and> l \<in> set (keys ?m1)"
    by (auto simp: keys_def dest: check_iteration_limit_labels)
  have l2: "\<forall>l. advanced_feedback_logic s = Inr l \<longrightarrow>
           l \<in> {''auto_approve'', ''get_feedback'', ''need_revision''} \<and> l \<in> set (keys ?m2)"
    by (auto simp: keys_def dest: advanced_feedback_logic_labels)
  have l3: "\<forall>l. error_recovery_logic s = Inr l \<longrightarrow>
           l \<in> {''retry'', ''partial_recovery'', ''terminate''} \<and> l \<in> set (keys ?m3)"
    by (auto simp: keys_def dest: error_recovery_logic_labels)
  have ty: "typed_state s \<longrightarrow>
           (\<exists>l1 l2 l3. check_iteration_limit s = Inr l1
                     \<and> advanced_feedback_logic s = Inr l2
                     \<and> error_recovery_logic s = Inr l3)"
    using check_iteration_limit_returns advanced_feedback_logic_returns
      error_recovery_logic_returns by blast
  have st: "\<forall>l st vs. step g ''state_monitor'' s \<noteq> Abort (RoutingError l) st vs
                 \<and> step g ''create_plan'' s \<noteq> Abort (RoutingError l) st vs
                 \<and> step g ''error_handler'' s \<noteq> Abort (RoutingError l) st vs"
  proof (intro allI conjI)
    fix l st vs
    show "step g ''state_monitor'' s \<noteq> Abort (RoutingError l) st vs"
      by (rule step_conditional_no_routing_error [OF n1 e1]) (rule t1)
    show "step g ''create_plan'' s \<noteq> Abort (RoutingError l) st vs"
      by (rule step_conditional_no_routing_error [OF n2 e2]) (rule t2)
    show "step g ''error_handler'' s \<noteq> Abort (RoutingError l) st vs"
      by (rule step_conditional_no_routing_error [OF n3 e3]) (rule t3)
  qed
  from g e1 e2 e3 l1 l2 l3 ty st show ?thesis by blast
qed

theorem routers_return_mapped_labels_witness:
  "typed_state [(''iteration_count'', PInt 3), (''errors'', PList [])]
   \<and> (\<exists>l1 l2 l3.
         check_iteration_limit [(''iteration_count'', PInt 3), (''errors'', PList [])] = Inr l1
       \<and> advanced_feedback_logic [(''iteration_count'', PInt 3), (''errors'', PList [])] = Inr l2
       \<and> error_recovery_logic [(''iteration_count'', PInt 3), (''errors'', PList [])] = Inr l3)
   \<and> check_iteration_limit [(''iteration_count'', PInt 3), (''errors'', PList [])]
       = Inr ''force_finalize''"
proof -
  let ?s = "[(''iteration_count'', PInt 3), (''errors'', PList [])]"
  have t: "typed_state ?s"
    by (simp add: typed_state_def field_is_def)
  from routers_return_mapped_labels [of plain_externals "counting_nodes r1 r2" ?s] t
  have "\<exists>l1 l2 l3. check_iteration_limit ?s = Inr l1
                 \<and> advanced_feedback_logic ?s = Inr l2
                 \<and> error_recovery_logic ?s = Inr l3"
    by blast
  moreover have "check_iteration_limit ?s = Inr ''force_finalize''"
    by (simp add: check_iteration_limit_def get_or_def get_def py_or_def
        PlannerConfig_default_def)
  ultimately show ?thesis using t by blast
qed

section \<open>Runs: what can lower the iteration count\<close>











lemma fst_run_from_0: "fst (run_from 0 g current s) = []"
  by simp





















section \<open>Runs: the nodes visited\<close>










lemma only_label_nodes [simp]: "cg_nodes (only_label b x g) = cg_nodes g"
  by (simp add: only_label_def)

lemma only_label_entry [simp]: "cg_entry (only_label b x g) = cg_entry g"
  by (simp add: only_label_def)










section \<open>The planner graph, pass by pass\<close>
















section \<open>A node that stores a lower count\<close>





section \<open>The fan-out of the advanced graph\<close>








section \<open>What the compiler collects\<close>









section \<open>The planner graph and the configured maximum\<close>

lemma limit_merge_keyless:
  "''config'' \<notin> set (keys p) \<Longrightarrow> max_iterations_of (merge s p) = max_iterations_of s"
  by (simp add: max_iterations_of_def get_def get_or_def map_of_merge_notin)

lemma limit_record_error: "max_iterations_of (record_error msg s) = max_iterations_of s"
  unfolding record_error_def by (rule limit_merge_keyless) (simp add: keys_def)


























end
